theory Spec2Isabelle
  imports Main
begin

section \<open>Data model\<close>

text \<open>
  The scraper of \<^verbatim>\<open>mse_auto_scraper_alerts.py\<close> moves a pandas DataFrame from a rendered
  web page into the SQLite table \<^verbatim>\<open>daily_prices\<close> and the workbook \<^verbatim>\<open>mse_daily.xlsx\<close>, and
  mails the outcome. A DataFrame is its list of column labels and its list of rows, each
  row a list of cells in column order. A cell is NULL/NaN, a text or a whole number
  (a REAL cell is carried by its decimal text; only equality of cells is ever used).
\<close>

datatype cell = Null | Text string | Num int

record dataframe =
  columns :: "string list"
  rows :: "cell list list"

text \<open>
  The SQLite table: its column names and its rows, each with the \<^verbatim>\<open>rowid\<close> SQLite gave it.
  Column names are compared exactly, as Python's \<^verbatim>\<open>"Ticker" in df.columns\<close> does.
\<close>

record table =
  tcolumns :: "string list"
  trows :: "(nat \<times> cell list) list"

text \<open>
  Exceptions. \<open>ValueError\<close> is the one \<^verbatim>\<open>fetch_table\<close> raises itself; \<open>LibraryError\<close> stands
  for every other subclass of \<^verbatim>\<open>Exception\<close> that a library call raises (selenium, pandas,
  sqlite3, openpyxl, smtplib). Both carry \<^verbatim>\<open>str(e)\<close>.
\<close>

datatype error = ValueError string | LibraryError string


datatype level = INFO | ERROR

record email =
  msg_from :: string
  msg_to :: string
  msg_subject :: string
  msg_body :: string

text \<open>
  Column labels as \<^verbatim>\<open>pd.read_html\<close> returns them: text, or a number when the table has no
  header row.
\<close>

datatype label = StrLabel string | IntLabel int

record raw_table =
  rcolumns :: "label list"
  rrows :: "cell list list"

text \<open>
  What one visit of the page yields. \<open>DriverFailed\<close>: \<^verbatim>\<open>get_driver()\<close> raised, no page was
  requested. \<open>LoadFailed\<close>: \<^verbatim>\<open>driver.get\<close>, \<^verbatim>\<open>page_source\<close> or \<^verbatim>\<open>quit\<close> raised.
  \<open>Snapshot None\<close>: \<^verbatim>\<open>soup.find("table")\<close> is \<^verbatim>\<open>None\<close>. \<open>Snapshot (Some (Inl m))\<close>:
  \<^verbatim>\<open>pd.read_html\<close> raised on the table found. \<open>Snapshot (Some (Inr t))\<close>: the frame
  \<^verbatim>\<open>pd.read_html(...)[0]\<close>.
\<close>

datatype page = DriverFailed string | LoadFailed string
  | Snapshot "(string + raw_table) option"

datatype sqlite_step = Connect | ToSql | Delete | Commit

datatype excel_step = ReadExcel | ToExcel

datatype smtp_step = Open | StartTLS | Login | SendMessage

text \<open>
  Everything one cycle reads from outside: the page, the clock, and where (if anywhere) the
  database, the workbook and the mail relay fail, with the text of the exception.
\<close>

record env =
  page :: page
  today :: string
  now :: string
  db_fault :: "(sqlite_step \<times> string) option"
  excel_fault :: "(excel_step \<times> string) option"
  smtp_fault :: "(smtp_step \<times> string) option"

text \<open>
  Everything the program changes: the table \<^verbatim>\<open>daily_prices\<close> of \<^verbatim>\<open>mse_data.db\<close> (\<open>None\<close>
  while it does not exist), the workbook (\<open>None\<close> while the file does not exist), the log
  file, and the mails the relay accepted. \<open>page_loads\<close> counts the calls of \<^verbatim>\<open>driver.get\<close>
  and \<open>notify_calls\<close> lists the calls of \<^verbatim>\<open>send_email\<close> (subject, body), delivered or not.
\<close>

record world =
  db :: "table option"
  excel :: "dataframe option"
  log :: "(level \<times> string) list"
  outbox :: "email list"
  page_loads :: nat
  notify_calls :: "(string \<times> string) list"

definition logger_info :: "string \<Rightarrow> world \<Rightarrow> world" where
  "logger_info m w = w\<lparr>log := log w @ [(INFO, m)]\<rparr>"


section \<open>Configuration\<close>


section \<open>Rendering numbers\<close>

text \<open>\<^verbatim>\<open>f"{len(df)}"\<close>: the decimal digits of a natural number.\<close>

fun str_nat :: "nat \<Rightarrow> string" where
  "str_nat n =
     (if n < 10 then [char_of (48 + n)]
      else str_nat (n div 10) @ [char_of (48 + n mod 10)])"

declare str_nat.simps [simp del]

section \<open>Cells by column name\<close>




section \<open>The SQLite store\<close>















section \<open>The workbook\<close>





section \<open>The collector\<close>

text \<open>\<^verbatim>\<open>c.strip()\<close> on ASCII text; a label that is not text has no \<^verbatim>\<open>strip\<close>.\<close>

definition is_space :: "char \<Rightarrow> bool" where
  "is_space c = (c \<in> set [CHR 0x20, CHR 0x09, CHR 0x0A, CHR 0x0B, CHR 0x0C, CHR 0x0D,
                           CHR 0x1C, CHR 0x1D, CHR 0x1E, CHR 0x1F])"

definition strip :: "string \<Rightarrow> string" where
  "strip s = rev (dropWhile is_space (rev (dropWhile is_space s)))"

fun strip_labels :: "label list \<Rightarrow> error + string list" where
  "strip_labels [] = Inr []"
| "strip_labels (StrLabel c # cs) =
     (case strip_labels cs of Inl ex \<Rightarrow> Inl ex | Inr cs' \<Rightarrow> Inr (strip c # cs'))"
| "strip_labels (IntLabel n # cs) =
     Inl (LibraryError ''int object has no attribute strip'')"

text \<open>\<^verbatim>\<open>df[c] = v\<close> with a scalar: the column is overwritten, or added as the last one.\<close>

definition set_column :: "string \<Rightarrow> cell \<Rightarrow> dataframe \<Rightarrow> dataframe" where
  "set_column c v df =
     (if c \<in> set (columns df)
      then df\<lparr>rows := map (\<lambda>r. map (\<lambda>(c', x). if c' = c then v else x) (zip (columns df) r))
                         (rows df)\<rparr>
      else df\<lparr>columns := columns df @ [c], rows := map (\<lambda>r. r @ [v]) (rows df)\<rparr>)"

definition fetch_table :: "env \<Rightarrow> world \<Rightarrow> (error + dataframe) \<times> world" where
  "fetch_table e w =
     (let w0 = logger_info ''Fetching MSE data...'' w in
      case page e of
        DriverFailed m \<Rightarrow> (Inl (LibraryError m), w0)
      | LoadFailed m \<Rightarrow> (Inl (LibraryError m), w0\<lparr>page_loads := page_loads w0 + 1\<rparr>)
      | Snapshot found \<Rightarrow>
         (let w1 = w0\<lparr>page_loads := page_loads w0 + 1\<rparr> in
          case found of
            None \<Rightarrow>
              (Inl (ValueError ''No table found on the page. The site may have changed.''), w1)
          | Some (Inl m) \<Rightarrow> (Inl (LibraryError m), w1)
          | Some (Inr raw) \<Rightarrow>
             (case strip_labels (rcolumns raw) of
                Inl ex \<Rightarrow> (Inl ex, w1)
              | Inr cols \<Rightarrow>
                 (let df = set_column ''scrape_date'' (Text (today e))
                             \<lparr>columns = cols, rows = rrows raw\<rparr>
                  in (Inr df,
                      logger_info (''Fetched '' @ str_nat (length (rows df)) @ '' rows from MSE.'')
                        w1)))))"

section \<open>The notifier\<close>



section \<open>The daily job\<close>















section \<open>Sample inputs\<close>

text \<open>A cycle in which nothing outside fails, on page \<open>p\<close>.\<close>

definition no_faults :: "page \<Rightarrow> env" where
  "no_faults p = \<lparr>page = p, today = ''2024-01-10'', now = ''2024-01-10 16:00:07.512340'',
     db_fault = None, excel_fault = None, smtp_fault = None\<rparr>"

text \<open>No database table, no workbook, nothing logged or mailed yet.\<close>

definition fresh_world :: world where
  "fresh_world = \<lparr>db = None, excel = None, log = [], outbox = [], page_loads = 0,
     notify_calls = []\<rparr>"









section \<open>Properties of the store\<close>






























section \<open>Properties of appends and of the workbook\<close>













section \<open>Properties of the daily job\<close>




















section \<open>Claims about the store\<close>













section \<open>Claims about the collector, the job and the notifier\<close>

text \<open>
  C8. Whenever the page fetched has no table, \<^verbatim>\<open>fetch_table\<close> raises its \<^verbatim>\<open>ValueError\<close>: it
  returns no frame, empty or not. It has requested the page exactly once: there is no
  second attempt.
\<close>

theorem missing_table_is_hard_failure:
  assumes "page e = Snapshot None"
  shows "fetch_table e w
           = (Inl (ValueError ''No table found on the page. The site may have changed.''),
              (logger_info ''Fetching MSE data...'' w)\<lparr>page_loads := page_loads w + 1\<rparr>)"
  using assms by (simp add: fetch_table_def logger_info_def)

theorem missing_table_is_hard_failure_witness:
  "page (no_faults (Snapshot None)) = Snapshot None
   \<and> fetch_table (no_faults (Snapshot None)) fresh_world
       = (Inl (ValueError ''No table found on the page. The site may have changed.''),
          fresh_world\<lparr>log := [(INFO, ''Fetching MSE data...'')], page_loads := 1\<rparr>)"
proof -
  have h: "page (no_faults (Snapshot None)) = Snapshot None" by code_simp
  have "(logger_info ''Fetching MSE data...'' fresh_world)\<lparr>page_loads := page_loads fresh_world + 1\<rparr>
        = fresh_world\<lparr>log := [(INFO, ''Fetching MSE data...'')], page_loads := 1\<rparr>"
    by code_simp
  with missing_table_is_hard_failure[OF h, of fresh_world] h show ?thesis by simp
qed









end
